theory Spec2Isabelle
  imports Main "HOL-Library.Sublist"
begin

section \<open>JavaScript strings\<close>

text \<open>
  A JavaScript string is modelled by the bytes of its UTF-8 encoding, one \<open>char\<close> per
  byte. The server only cuts strings at the ASCII characters \<open>?\<close> and \<open>/\<close> and only
  compares them with ASCII literals, which is the same on code units and on UTF-8 bytes.
  A value of type \<open>string | undefined\<close> is a \<open>string option\<close>.
\<close>

definition truthy :: "string option \<Rightarrow> bool" where
  \<comment> \<open>a \<open>string | undefined\<close> in a condition: \<open>undefined\<close> and \<open>""\<close> are falsy\<close>
  "truthy v = (case v of None \<Rightarrow> False | Some s \<Rightarrow> s \<noteq> [])"

definition startsWith :: "string \<Rightarrow> string \<Rightarrow> bool" where
  "startsWith s p = (take (length p) s = p)"

definition endsWith :: "string \<Rightarrow> string \<Rightarrow> bool" where
  "endsWith s p = (length p \<le> length s \<and> drop (length s - length p) s = p)"

definition includes_char :: "string \<Rightarrow> char \<Rightarrow> bool" where
  "includes_char s c = (c \<in> set s)"

fun split :: "char \<Rightarrow> string \<Rightarrow> string list" where
  \<comment> \<open>\<open>s.split(sep)\<close> for a one-character separator: never the empty array\<close>
  "split sep [] = [[]]"
| "split sep (c # cs) =
     (if c = sep then [] # split sep cs
      else (case split sep cs of [] \<Rightarrow> [[c]] | p # ps \<Rightarrow> (c # p) # ps))"

definition element :: "'a list \<Rightarrow> nat \<Rightarrow> 'a option" where
  \<comment> \<open>\<open>xs[i]\<close>, \<open>undefined\<close> beyond the end\<close>
  "element xs i = (if i < length xs then Some (xs ! i) else None)"


definition slice_0_minus1 :: "string \<Rightarrow> string" where
  \<comment> \<open>\<open>s.slice(0, -1)\<close>\<close>
  "slice_0_minus1 s = take (length s - 1) s"

definition template :: "string option \<Rightarrow> string" where
  \<comment> \<open>\<open>`${v}`\<close> for a \<open>string | undefined\<close>\<close>
  "template v = (case v of None \<Rightarrow> ''undefined'' | Some s \<Rightarrow> s)"

fun string_of_nat :: "nat \<Rightarrow> string" where
  \<comment> \<open>\<open>`${n}`\<close> for a natural number: its decimal digits\<close>
  "string_of_nat n =
     (if n < 10 then [char_of (48 + n)]
      else string_of_nat (n div 10) @ [char_of (48 + n mod 10)])"

declare string_of_nat.simps [simp del]

section \<open>\<open>encodeURI\<close> and \<open>decodeURI\<close>\<close>

text \<open>
  The two built-in functions of ECMAScript (sections \<open>encodeURI\<close>, \<open>decodeURI\<close>,
  \<open>Encode\<close> and \<open>Decode\<close> of the language specification), on strings given by their
  UTF-8 bytes. \<open>encodeURI\<close> escapes every UTF-8 byte of a character outside its unescaped
  set; \<open>decodeURI\<close> turns a well-formed run of escaped UTF-8 bytes back into the character,
  that is, into these bytes. \<open>encodeURI\<close> throws on a lone surrogate only, which no UTF-8
  string holds, so it is total here. \<open>None\<close> is a thrown \<open>URIError\<close>.
\<close>

definition uriReserved :: "char set" where
  "uriReserved = set '';/?:@&=+$,''"

definition uriAlpha :: "char set" where
  "uriAlpha = set ''abcdefghijklmnopqrstuvwxyzABCDEFGHIJKLMNOPQRSTUVWXYZ''"

definition uriMark :: "char set" where
  "uriMark = set ''-_.!~*()'' \<union> {CHR 0x27}"

definition uriUnescaped :: "char set" where
  "uriUnescaped = uriAlpha \<union> set ''0123456789'' \<union> uriMark"

definition hex_digit :: "nat \<Rightarrow> char" where
  "hex_digit d = (if d < 10 then char_of (48 + d) else char_of (55 + d))"

definition percent_escape :: "char \<Rightarrow> string" where
  "percent_escape c = [CHR ''%'', hex_digit (of_char c div 16), hex_digit (of_char c mod 16)]"

definition encodeURI :: "string \<Rightarrow> string" where
  "encodeURI s =
     concat (map (\<lambda>c. if c \<in> uriReserved \<union> uriUnescaped \<union> {CHR ''#''} then [c]
                       else percent_escape c) s)"

definition hex_value :: "char \<Rightarrow> nat option" where
  "hex_value c =
     (let n = (of_char c :: nat)
      in if 48 \<le> n \<and> n \<le> 57 then Some (n - 48)
         else if 65 \<le> n \<and> n \<le> 70 then Some (n - 55)
         else if 97 \<le> n \<and> n \<le> 102 then Some (n - 87)
         else None)"

fun take_escape :: "string \<Rightarrow> (nat \<times> string) option" where
  \<comment> \<open>an escape \<open>%XX\<close> at the head of the string: its byte and what follows it\<close>
  "take_escape (p # h # l # rest) =
     (if p = CHR ''%'' then
        (case (hex_value h, hex_value l) of
           (Some a, Some b) \<Rightarrow> Some (16 * a + b, rest)
         | _ \<Rightarrow> None)
      else None)"
| "take_escape _ = None"

fun take_escapes :: "nat \<Rightarrow> string \<Rightarrow> (nat list \<times> string) option" where
  "take_escapes 0 s = Some ([], s)"
| "take_escapes (Suc n) s =
     (case take_escape s of
        None \<Rightarrow> None
      | Some (b, rest) \<Rightarrow>
          (case take_escapes n rest of
             None \<Rightarrow> None
           | Some (bs, rest') \<Rightarrow> Some (b # bs, rest')))"

definition leading_ones :: "nat \<Rightarrow> nat" where
  \<comment> \<open>the number of leading 1 bits of a byte (5 stands for 5 or more)\<close>
  "leading_ones b =
     (if b < 0x80 then 0 else if b < 0xC0 then 1 else if b < 0xE0 then 2
      else if b < 0xF0 then 3 else if b < 0xF8 then 4 else 5)"

definition continuation :: "nat \<Rightarrow> bool" where
  "continuation b = (0x80 \<le> b \<and> b \<le> 0xBF)"

fun valid_utf8 :: "nat list \<Rightarrow> bool" where
  \<comment> \<open>the well-formed UTF-8 sequences of two to four bytes: no overlong form, no
      surrogate, nothing above U+10FFFF\<close>
  "valid_utf8 [a, b] = (0xC2 \<le> a \<and> a \<le> 0xDF \<and> continuation b)"
| "valid_utf8 [a, b, c] =
     (continuation c \<and>
      (if a = 0xE0 then 0xA0 \<le> b \<and> b \<le> 0xBF
       else if a = 0xED then 0x80 \<le> b \<and> b \<le> 0x9F
       else 0xE1 \<le> a \<and> a \<le> 0xEF \<and> continuation b))"
| "valid_utf8 [a, b, c, d] =
     (continuation c \<and> continuation d \<and>
      (if a = 0xF0 then 0x90 \<le> b \<and> b \<le> 0xBF
       else if a = 0xF4 then 0x80 \<le> b \<and> b \<le> 0x8F
       else 0xF1 \<le> a \<and> a \<le> 0xF3 \<and> continuation b))"
| "valid_utf8 _ = False"

lemma take_escape_length:
  "take_escape s = Some (b, rest) \<Longrightarrow> length rest < length s"
  by (induction s rule: take_escape.induct) (auto split: if_splits option.splits)

lemma take_escapes_length:
  "take_escapes n s = Some (bs, rest) \<Longrightarrow> length rest \<le> length s"
proof (induction n arbitrary: s bs rest)
  case 0
  then show ?case by simp
next
  case (Suc n)
  then show ?case
    by (fastforce split: option.splits dest: take_escape_length)
qed

function decodeURI :: "string \<Rightarrow> string option" where
  "decodeURI [] = Some []"
| "decodeURI (c # cs) =
     (if c \<noteq> CHR ''%'' then map_option ((#) c) (decodeURI cs)
      else
        (case take_escape (c # cs) of
           None \<Rightarrow> None
         | Some (b, rest) \<Rightarrow>
             (let n = leading_ones b
              in if n = 0 then
                   (if char_of b \<in> uriReserved \<union> {CHR ''#''}
                    then map_option ((@) (take 3 (c # cs))) (decodeURI rest)
                    else map_option ((#) (char_of b)) (decodeURI rest))
                 else if n = 1 \<or> n > 4 then None
                 else
                   (case take_escapes (n - 1) rest of
                      None \<Rightarrow> None
                    | Some (bs, rest') \<Rightarrow>
                        if valid_utf8 (b # bs)
                        then map_option ((@) (map char_of (b # bs))) (decodeURI rest')
                        else None))))"
  by pat_completeness auto
termination
proof (relation "measure length")
  show "wf (measure length)" by simp
next
  fix c cs
  show "(cs, c # cs) \<in> measure length" by simp
next
  fix c cs x2 x y xa
  assume "take_escape (c # cs) = Some x2" "(x, y) = x2"
  then show "(y, c # cs) \<in> measure length"
    using take_escape_length [of "c # cs" x y] by simp
next
  fix c cs x2 x y xa
  assume "take_escape (c # cs) = Some x2" "(x, y) = x2"
  then show "(y, c # cs) \<in> measure length"
    using take_escape_length [of "c # cs" x y] by simp
next
  fix c cs x2 x y xa x2a xb ya
  assume "take_escape (c # cs) = Some x2" "(x, y) = x2"
    "take_escapes (xa - 1) y = Some x2a" "(xb, ya) = x2a"
  then show "(ya, c # cs) \<in> measure length"
    using take_escape_length [of "c # cs" x y] take_escapes_length [of "xa - 1" y xb ya]
    by simp
qed

section \<open>Effects of the request listener\<close>

datatype dotfiles = Allow | Deny

datatype effect =
    Lstat string                  \<comment> \<open>\<open>fs.lstatSync(filePath)\<close>\<close>
  | SetStatusCode nat             \<comment> \<open>\<open>res.statusCode = n\<close>\<close>
  | SetHeader string string       \<comment> \<open>\<open>res.setHeader(name, value)\<close>\<close>
  | WriteHead nat                 \<comment> \<open>\<open>res.writeHead(n)\<close>\<close>
  | End string                    \<comment> \<open>\<open>res.end(body)\<close>\<close>
  | ConsoleError string           \<comment> \<open>\<open>console.error(text)\<close>\<close>
  | Handler                       \<comment> \<open>\<open>handler(req, res)\<close>\<close>
  | Send string string dotfiles   \<comment> \<open>\<open>send(req, encodedURI, {root, dotfiles})\<close>\<close>
  | Pipe                          \<comment> \<open>\<open>stream.pipe(res)\<close>\<close>

section \<open>\<open>path.join\<close>\<close>

text \<open>
  \<open>path.join\<close> of Node.js on POSIX, for two arguments: the non-empty arguments are
  joined with \<open>/\<close> and the result is normalised. Normalising drops empty and \<open>.\<close>
  segments and lets a \<open>..\<close> segment remove the segment before it; above the root of an
  absolute path a \<open>..\<close> is dropped, in a relative path it is kept.
\<close>

fun normalizeString :: "bool \<Rightarrow> string list \<Rightarrow> string list \<Rightarrow> string list" where
  \<comment> \<open>\<open>res\<close> holds the segments kept so far, the last one first\<close>
  "normalizeString allowAboveRoot res [] = rev res"
| "normalizeString allowAboveRoot res (seg # segs) =
     (if seg = [] \<or> seg = ''.'' then normalizeString allowAboveRoot res segs
      else if seg = ''..'' then
        (case res of
           [] \<Rightarrow> normalizeString allowAboveRoot (if allowAboveRoot then [''..''] else []) segs
         | r # rs \<Rightarrow>
             if r = ''..'' then normalizeString allowAboveRoot (''..'' # res) segs
             else normalizeString allowAboveRoot rs segs)
      else normalizeString allowAboveRoot (seg # res) segs)"

fun join_segments :: "string list \<Rightarrow> string" where
  "join_segments [] = []"
| "join_segments [seg] = seg"
| "join_segments (seg # segs) = seg @ ''/'' @ join_segments segs"

definition normalize :: "string \<Rightarrow> string" where
  "normalize path =
     (if path = [] then ''.''
      else
        (let isAbsolute = startsWith path ''/'';
             trailingSeparator = endsWith path ''/'';
             path' = join_segments (normalizeString (\<not> isAbsolute) [] (split CHR ''/'' path))
         in if path' = [] then
              (if isAbsolute then ''/'' else if trailingSeparator then ''./'' else ''.'')
            else
              (let path'' = (if trailingSeparator then path' @ ''/'' else path')
               in if isAbsolute then ''/'' @ path'' else path'')))"

definition path_join :: "string \<Rightarrow> string \<Rightarrow> string" where
  "path_join a b =
     (if a = [] \<and> b = [] then ''.''
      else if a = [] then normalize b
      else if b = [] then normalize a
      else normalize (a @ ''/'' @ b))"

section \<open>The trailing-slash switch of the listener\<close>

definition query_suffix :: "string option \<Rightarrow> string" where
  \<comment> \<open>\<open>(urlQuery ? "?" + urlQuery : "")\<close>\<close>
  "query_suffix urlQuery = (case urlQuery of None \<Rightarrow> [] | Some q \<Rightarrow> if q = [] then [] else ''?'' @ q)"

definition case_never :: "bool \<Rightarrow> bool \<Rightarrow> string \<Rightarrow> string option \<Rightarrow> string \<times> effect list" where
  "case_never isDirectory hasSlash urlPath urlQuery =
     (if isDirectory \<and> hasSlash then
        (let pathname = slice_0_minus1 urlPath @ query_suffix urlQuery
         in (pathname, [SetStatusCode 301, SetHeader ''Location'' pathname]))
      else (urlPath, []))"

definition case_ignore :: "bool \<Rightarrow> bool \<Rightarrow> string \<Rightarrow> string" where
  "case_ignore isDirectory hasSlash urlPath =
     (if isDirectory \<and> \<not> hasSlash then urlPath @ ''/index.html'' else urlPath)"

definition case_always :: "bool \<Rightarrow> string \<Rightarrow> string option \<Rightarrow> string \<times> effect list" where
  "case_always hasSlash urlPath urlQuery =
     (if \<not> hasSlash then
        (let pathname = urlPath @ ''/'' @ query_suffix urlQuery
         in (pathname, [SetStatusCode 301, SetHeader ''Location'' pathname]))
      else (urlPath, []))"

definition trailingSlash_switch ::
  "string option \<Rightarrow> bool \<Rightarrow> string \<Rightarrow> string option \<Rightarrow> string option \<times> effect list" where
  \<comment> \<open>Lines 51 to 79. The result is the final value of \<open>pathname\<close> (\<open>None\<close> when no case
      assigned it) and the effects on \<open>res\<close>. The case \<open>"never"\<close> falls through into
      \<open>"ignore"\<close>, which assigns \<open>pathname\<close> again.\<close>
  "trailingSlash_switch trailingSlash isDirectory urlPath urlQuery =
     (let trailingSlash = (if \<not> truthy trailingSlash then Some ''ignore'' else trailingSlash);
          hasSlash = endsWith urlPath ''/''
      in if trailingSlash = Some ''never'' then
           (let (pathname, effects) = case_never isDirectory hasSlash urlPath urlQuery;
                pathname = case_ignore isDirectory hasSlash urlPath
            in (Some pathname, effects))
         else if trailingSlash = Some ''ignore'' then
           (Some (case_ignore isDirectory hasSlash urlPath), [])
         else if trailingSlash = Some ''always'' then
           (let (pathname, effects) = case_always hasSlash urlPath urlQuery
            in (Some pathname, effects))
         else (None, []))"

section \<open>The server\<close>

text \<open>
  \<open>CreateServerOptions\<close>. The field \<open>client\<close> holds \<open>fileURLToPath(client)\<close>, the
  path of the client directory, which is all the server uses of the URL.
\<close>

record options =
  client :: string
  port :: nat
  host :: "string option"
  removeBase :: "string \<Rightarrow> string"
  assets :: string

text \<open>
  What the server asks of its platform: \<open>URL_pathname input base\<close> is
  \<open>new URL(input, base).pathname\<close>, \<open>None\<close> when the constructor throws;
  \<open>lstat_isDirectory path\<close> is \<open>fs.lstatSync(path).isDirectory()\<close>, \<open>None\<close> when
  \<open>lstatSync\<close> throws.
\<close>

record platform =
  URL_pathname :: "string \<Rightarrow> string \<Rightarrow> string option"
  lstat_isDirectory :: "string \<Rightarrow> bool option"

definition parsePathname ::
  "platform \<Rightarrow> string \<Rightarrow> string option \<Rightarrow> nat \<Rightarrow> string option" where
  \<comment> \<open>\<open>None\<close> is the \<open>undefined\<close> of the \<open>catch\<close> branch\<close>
  "parsePathname P pathname the_host the_port =
     (case URL_pathname P pathname
             (''http://'' @ template the_host @ '':'' @ string_of_nat the_port) of
        None \<Rightarrow> None
      | Some urlPathname \<Rightarrow> decodeURI (encodeURI urlPathname))"

definition isImmutableAsset :: "options \<Rightarrow> string \<Rightarrow> bool" where
  "isImmutableAsset opts pathname = startsWith pathname (''/'' @ assets opts @ ''/'')"

text \<open>
  The events of a \<open>send\<close> stream. The listener listens to \<open>error\<close>, \<open>headers\<close>,
  \<open>directory\<close> and \<open>file\<close>; \<open>send\<close> emits \<open>stream\<close> when it starts to write the body
  of a file to the response and \<open>end\<close> when it is done. An \<open>error\<close> carries
  \<open>err.toString()\<close>.
\<close>

datatype stream_event =
  EvError string | EvHeaders | EvDirectory | EvFile | EvStream | EvEnd

definition directory_location :: "string \<Rightarrow> string" where
  \<comment> \<open>lines 118 to 124, on \<open>req.url\<close>\<close>
  "directory_location req_url =
     (if includes_char req_url CHR ''?'' then
        (let parts = split CHR ''?'' req_url;
             url = (case element parts 0 of None \<Rightarrow> [] | Some u \<Rightarrow> u);
             search = element parts 1
         in url @ ''/?'' @ template search)
      else req_url @ ''/'')"

fun on_event ::
  "options \<Rightarrow> string \<Rightarrow> string \<Rightarrow> bool \<Rightarrow> stream_event \<Rightarrow> bool \<times> effect list" where
  \<comment> \<open>one event of the stream, from the state of \<open>forwardError\<close> to its new state and the
      effects of the event's listener\<close>
  "on_event opts req_url encodedURI forwardError (EvError err) =
     (if forwardError then
        (forwardError, [ConsoleError err, WriteHead 500, End ''Internal server error''])
      else (forwardError, [Handler]))"
| "on_event opts req_url encodedURI forwardError EvHeaders =
     (if isImmutableAsset opts encodedURI then
        (forwardError, [SetHeader ''Cache-Control'' ''public, max-age=31536000, immutable''])
      else (forwardError, []))"
| "on_event opts req_url encodedURI forwardError EvDirectory =
     (let location = directory_location req_url
      in (forwardError, [SetStatusCode 301, SetHeader ''Location'' location, End location]))"
| "on_event opts req_url encodedURI forwardError EvFile = (True, [])"
| "on_event opts req_url encodedURI forwardError EvStream = (forwardError, [])"
| "on_event opts req_url encodedURI forwardError EvEnd = (forwardError, [])"

fun run_stream ::
  "options \<Rightarrow> string \<Rightarrow> string \<Rightarrow> bool \<Rightarrow> stream_event list \<Rightarrow> effect list" where
  "run_stream opts req_url encodedURI forwardError [] = []"
| "run_stream opts req_url encodedURI forwardError (ev # evs) =
     (let (forwardError', effects) = on_event opts req_url encodedURI forwardError ev
      in effects @ run_stream opts req_url encodedURI forwardError' evs)"

datatype listener_error =
    Unassigned_pathname
    \<comment> \<open>no case of the switch was taken: \<open>removeBase\<close> is called on an unassigned variable,
        which no value of the declared type of \<open>trailingSlash\<close> leads to\<close>

definition destructure_url :: "string \<Rightarrow> string \<times> string option" where
  \<comment> \<open>line 41: \<open>const [urlPath, urlQuery] = req.url.split('?')\<close>\<close>
  "destructure_url url =
     (let parts = split CHR ''?'' url
      in (case element parts 0 of None \<Rightarrow> [] | Some p \<Rightarrow> p, element parts 1))"

definition filePath :: "options \<Rightarrow> string \<Rightarrow> string" where
  \<comment> \<open>line 42\<close>
  "filePath opts urlPath = path_join (client opts) (removeBase opts urlPath)"

definition isDirectory_at :: "platform \<Rightarrow> string \<Rightarrow> bool" where
  \<comment> \<open>lines 45 to 49: a failed \<open>lstatSync\<close> leaves \<open>isDirectory\<close> false\<close>
  "isDirectory_at P path = (case lstat_isDirectory P path of None \<Rightarrow> False | Some d \<Rightarrow> d)"

definition pathname_with_query :: "options \<Rightarrow> string option \<Rightarrow> string \<Rightarrow> string" where
  \<comment> \<open>lines 80 to 84\<close>
  "pathname_with_query opts urlQuery pathname =
     (let pathname = removeBase opts pathname
      in case urlQuery of
           None \<Rightarrow> pathname
         | Some query \<Rightarrow>
             if query \<noteq> [] \<and> \<not> includes_char pathname CHR ''?''
             then pathname @ ''?'' @ query else pathname)"

definition listener ::
  "platform \<Rightarrow> options \<Rightarrow> string option \<Rightarrow> string option \<Rightarrow> stream_event list
     \<Rightarrow> listener_error + effect list" where
  \<comment> \<open>\<open>listener P opts trailingSlash req_url events\<close>: the effects, in order, of one
      request with target \<open>req_url\<close> whose \<open>send\<close> stream emits \<open>events\<close>\<close>
  "listener P opts trailingSlash req_url events =
     (case req_url of
        None \<Rightarrow> Inr [Handler]
      | Some url \<Rightarrow>
          if url = [] then Inr [Handler]
          else
            (let (urlPath, urlQuery) = destructure_url url;
                 path = filePath opts urlPath;
                 (pathname, redirect) =
                    trailingSlash_switch trailingSlash (isDirectory_at P path) urlPath urlQuery
             in case pathname of
                  None \<Rightarrow> Inl Unassigned_pathname
                | Some pathname \<Rightarrow>
                    (let pathname = pathname_with_query opts urlQuery pathname
                     in case parsePathname P pathname (host opts) (port opts) of
                          None \<Rightarrow>
                            Inr (Lstat path # redirect @ [WriteHead 400, End ''Bad request.''])
                        | Some encodedURI \<Rightarrow>
                            if encodedURI = [] then
                              Inr (Lstat path # redirect @ [WriteHead 400, End ''Bad request.''])
                            else
                              Inr (Lstat path # redirect @
                                   [Send encodedURI (client opts)
                                      (if startsWith pathname ''/.well-known/'' then Allow
                                       else Deny),
                                    Pipe] @
                                   run_stream opts url encodedURI False events))))"

subsection \<open>The choice of transport\<close>


datatype fs_error = ENOENT | EACCES | EISDIR

datatype tls_error = Unusable_key | Unusable_certificate | Key_mismatch


datatype 'b server =
    Https 'b 'b   \<comment> \<open>\<open>https.createServer({key, cert}, listener)\<close>\<close>
  | Http          \<comment> \<open>\<open>http.createServer(listener)\<close>\<close>


subsection \<open>The \<open>trailingSlash\<close> entry of the configuration schema\<close>



subsection \<open>Example inputs\<close>

text \<open>
  The inputs of the concrete evaluations below: a server for the client directory
  \<open>/srv/client/\<close> with no base, and a platform on which the paths of \<open>dirs\<close> are
  directories and nothing else exists. Its URL parser gives the input up to the first
  \<open>?\<close> and throws on \<open>//\<close> (an empty host), as the parser of the platform does on the
  targets used below.
\<close>

abbreviation example_options :: options where
  "example_options \<equiv>
     \<lparr>client = ''/srv/client/'', port = 4321, host = Some ''localhost'',
      removeBase = (\<lambda>pathname. pathname), assets = ''_astro''\<rparr>"

abbreviation example_platform :: "string list \<Rightarrow> platform" where
  "example_platform dirs \<equiv>
     \<lparr>URL_pathname = (\<lambda>input base.
        (let path = takeWhile (\<lambda>c. c \<noteq> CHR ''?'') input
         in if path = ''//'' then None else Some path)),
      lstat_isDirectory = (\<lambda>path. if path \<in> set dirs then Some True else None)\<rparr>"



section \<open>Properties\<close>

lemma endsWith_slash_slice:
  "endsWith urlPath ''/'' \<Longrightarrow> slice_0_minus1 urlPath @ ''/'' = urlPath"
proof -
  assume h: "endsWith urlPath ''/''"
  then have ne: "urlPath \<noteq> []" and l: "drop (length urlPath - 1) urlPath = ''/''"
    by (auto simp: endsWith_def)
  have "take (length urlPath - 1) urlPath @ drop (length urlPath - 1) urlPath = urlPath"
    by (rule append_take_drop_id)
  with l show ?thesis by (simp add: slice_0_minus1_def)
qed

















lemma hex_value_hex_digit: "d < 16 \<Longrightarrow> hex_value (hex_digit d) = Some d"
  by (auto simp add: hex_value_def hex_digit_def Let_def)

lemma take_escape_percent_escape:
  "take_escape (percent_escape c @ rest) = Some (of_char c, rest)"
proof -
  have "(of_char c :: nat) < 256" by simp
  then have "(of_char c :: nat) div 16 < 16" "(of_char c :: nat) mod 16 < 16" by arith+
  then show ?thesis
    by (simp add: percent_escape_def hex_value_hex_digit)
qed

lemma decodeURI_encodeURI_ascii:
  "\<forall>c \<in> set u. (of_char c :: nat) < 128 \<Longrightarrow> decodeURI (encodeURI u) = Some u"
proof (induction u)
  case Nil
  then show ?case by (simp add: encodeURI_def)
next
  case (Cons c cs)
  then have ih: "decodeURI (encodeURI cs) = Some cs" and c: "(of_char c :: nat) < 128" by simp_all
  have step: "encodeURI (c # cs) =
      (if c \<in> uriReserved \<union> uriUnescaped \<union> {CHR ''#''} then [c] else percent_escape c) @ encodeURI cs"
    by (simp add: encodeURI_def)
  show ?case
  proof (cases "c \<in> uriReserved \<union> uriUnescaped \<union> {CHR ''#''}")
    case True
    then have "c \<noteq> CHR ''%''"
      by (auto simp add: uriReserved_def uriUnescaped_def uriAlpha_def uriMark_def)
    with True ih show ?thesis by (simp add: step)
  next
    case False
    have pe: "percent_escape c @ encodeURI cs = CHR ''%'' # tl (percent_escape c @ encodeURI cs)"
      by (simp add: percent_escape_def)
    have te: "take_escape (CHR ''%'' # tl (percent_escape c @ encodeURI cs)) = Some (of_char c, encodeURI cs)"
      using take_escape_percent_escape [of c "encodeURI cs"] pe by simp
    have lo: "leading_ones (of_char c) = 0" using c by (simp add: leading_ones_def)
    have "decodeURI (CHR ''%'' # tl (percent_escape c @ encodeURI cs)) = Some (c # cs)"
      using False ih by (simp add: te lo del: take_escape.simps)
    with False pe show ?thesis by (simp add: step)
  qed
qed



lemmas eval_simps =
  listener_def destructure_url_def element_def filePath_def path_join_def normalize_def
  startsWith_def endsWith_def isDirectory_at_def trailingSlash_switch_def case_never_def
  case_ignore_def case_always_def truthy_def query_suffix_def slice_0_minus1_def
  pathname_with_query_def includes_char_def template_def parsePathname_def
  decodeURI_encodeURI_ascii isImmutableAsset_def directory_location_def Let_def

lemma error_event:
  "on_event opts req_url encodedURI True (EvError err) =
     (True, [ConsoleError err, WriteHead 500, End ''Internal server error''])
   \<and> on_event opts req_url encodedURI False (EvError err) = (False, [Handler])
   \<and> listener P opts trailingSlash None events = Inr [Handler]
   \<and> listener P opts trailingSlash (Some []) events = Inr [Handler]"
  by (simp add: listener_def)













text \<open>
  What the switch yields for each policy, with and without a trailing slash, on a directory
  and on anything else.
\<close>

lemma trailingSlash_switch_outcomes:
  "(isDirectory \<and> endsWith urlPath ''/'' \<longrightarrow>
      trailingSlash_switch (Some ''never'') isDirectory urlPath urlQuery =
        (Some urlPath, [SetStatusCode 301,
           SetHeader ''Location'' (slice_0_minus1 urlPath @ query_suffix urlQuery)])
      \<and> slice_0_minus1 urlPath @ ''/'' = urlPath)
   \<and> (isDirectory \<and> \<not> endsWith urlPath ''/'' \<longrightarrow>
      trailingSlash_switch (Some ''never'') isDirectory urlPath urlQuery =
        (Some (urlPath @ ''/index.html''), []))
   \<and> (\<not> isDirectory \<longrightarrow>
      trailingSlash_switch (Some ''never'') isDirectory urlPath urlQuery = (Some urlPath, []))
   \<and> (isDirectory \<and> \<not> endsWith urlPath ''/'' \<longrightarrow>
      trailingSlash_switch (Some ''ignore'') isDirectory urlPath urlQuery =
        (Some (urlPath @ ''/index.html''), []))
   \<and> (\<not> (isDirectory \<and> \<not> endsWith urlPath ''/'') \<longrightarrow>
      trailingSlash_switch (Some ''ignore'') isDirectory urlPath urlQuery = (Some urlPath, []))
   \<and> (\<not> endsWith urlPath ''/'' \<longrightarrow>
      trailingSlash_switch (Some ''always'') isDirectory urlPath urlQuery =
        (Some (urlPath @ ''/'' @ query_suffix urlQuery), [SetStatusCode 301,
           SetHeader ''Location'' (urlPath @ ''/'' @ query_suffix urlQuery)]))
   \<and> (endsWith urlPath ''/'' \<longrightarrow>
      trailingSlash_switch (Some ''always'') isDirectory urlPath urlQuery = (Some urlPath, []))"
  using endsWith_slash_slice [of urlPath]
  by (simp add: trailingSlash_switch_def truthy_def case_never_def case_ignore_def
      case_always_def Let_def)

text \<open>
  C1. The claim does not hold of the switch at these requests. Under \<open>never\<close>, for the
  directory \<open>/docs/\<close>, the switch yields two outcomes at once: status 301 with the
  Location \<open>/docs\<close>, and the pathname \<open>/docs/\<close>, which the listener then gives to the
  streamer as it is. Under \<open>always\<close>, for \<open>/app.js\<close>, which is not a directory, the
  switch yields status 301 with the Location \<open>/app.js/\<close>, where the table has a path that
  is a file or unknown served as it is.
\<close>

theorem switch_against_table:
  "trailingSlash_switch (Some ''never'') True ''/docs/'' None =
     (Some ''/docs/'', [SetStatusCode 301, SetHeader ''Location'' ''/docs''])
   \<and> listener (example_platform [''/srv/client/docs/'']) example_options (Some ''never'')
       (Some ''/docs/'') [] =
     Inr [Lstat ''/srv/client/docs/'', SetStatusCode 301, SetHeader ''Location'' ''/docs'',
          Send ''/docs/'' ''/srv/client/'' Deny, Pipe]
   \<and> trailingSlash_switch (Some ''always'') False ''/app.js'' None =
     (Some ''/app.js/'', [SetStatusCode 301, SetHeader ''Location'' ''/app.js/''])"
  by (simp add: eval_simps)

text \<open>
  C3. The claim does not hold of the listener at this request. Under \<open>always\<close>, for
  \<open>/app.js\<close>, a file in the client directory, the listener sets status 301 and the
  Location \<open>/app.js/\<close> and gives \<open>/app.js/\<close> to the streamer, which finds nothing
  under that name: the file is not served and the request ends at the handler. Under
  \<open>ignore\<close> and under \<open>never\<close> the same request is served from the file.
\<close>

theorem always_redirects_existing_file:
  "listener
     \<lparr>URL_pathname = (\<lambda>input base.
        if input = ''/app.js'' \<or> input = ''/app.js/'' then Some input else None),
      lstat_isDirectory = (\<lambda>path. if path = ''/srv/client/app.js'' then Some False else None)\<rparr>
     example_options (Some ''always'') (Some ''/app.js'') [EvError ''NotFoundError: Not Found''] =
     Inr [Lstat ''/srv/client/app.js'', SetStatusCode 301, SetHeader ''Location'' ''/app.js/'',
          Send ''/app.js/'' ''/srv/client/'' Deny, Pipe, Handler]
   \<and> listener
     \<lparr>URL_pathname = (\<lambda>input base.
        if input = ''/app.js'' \<or> input = ''/app.js/'' then Some input else None),
      lstat_isDirectory = (\<lambda>path. if path = ''/srv/client/app.js'' then Some False else None)\<rparr>
     example_options (Some ''ignore'') (Some ''/app.js'') [EvFile, EvHeaders, EvStream, EvEnd] =
     Inr [Lstat ''/srv/client/app.js'', Send ''/app.js'' ''/srv/client/'' Deny, Pipe]
   \<and> listener
     \<lparr>URL_pathname = (\<lambda>input base.
        if input = ''/app.js'' \<or> input = ''/app.js/'' then Some input else None),
      lstat_isDirectory = (\<lambda>path. if path = ''/srv/client/app.js'' then Some False else None)\<rparr>
     example_options (Some ''never'') (Some ''/app.js'') [EvFile, EvHeaders, EvStream, EvEnd] =
     Inr [Lstat ''/srv/client/app.js'', Send ''/app.js'' ''/srv/client/'' Deny, Pipe]"
  by (simp add: eval_simps)










text \<open>
  C5, as stated, fails. For the target \<open>//\<close>, which the URL parser rejects, the answer
  is 400 with the body \<open>Bad request.\<close>, but only after the candidate path has been looked
  up with \<open>lstatSync\<close>. For the target \<open>/%E0%A4%A\<close>, which the URL parser accepts, the
  canonical pathname is \<open>/%E0%A4%A\<close> itself: the stream is created and, when it reports
  its error, the request goes to the handler; no 400 is sent by the listener.
\<close>

theorem bad_request_counterexample:
  "listener (example_platform [''/srv/client/'']) example_options (Some ''ignore'') (Some ''//'') [] =
     Inr [Lstat ''/srv/client/'', WriteHead 400, End ''Bad request.'']
   \<and> listener (example_platform []) example_options (Some ''ignore'') (Some ''/%E0%A4%A'')
       [EvError ''BadRequestError: Bad Request''] =
     Inr [Lstat ''/srv/client/%E0%A4%A'', Send ''/%E0%A4%A'' ''/srv/client/'' Deny, Pipe, Handler]"
  by (simp add: eval_simps)

text \<open>
  C5, amended. For every request with a target whose pathname \<open>parsePathname\<close> cannot
  produce (the URL constructor throws, or the result is empty), the listener, having looked
  up the candidate path with \<open>lstatSync\<close> and applied the switch, answers 400 with the body
  \<open>Bad request.\<close>; no stream is created and the handler is not called. A pathname that the
  URL parser returns in ASCII, as \<open>/%E0%A4%A\<close>, is never such a case: \<open>encodeURI\<close>
  escapes its \<open>%\<close> signs before \<open>decodeURI\<close> reads them, and the result is the pathname.
\<close>

theorem bad_request_after_lstat:
  "(url \<noteq> [] \<and> destructure_url url = (urlPath, urlQuery) \<and>
    trailingSlash_switch trailingSlash (isDirectory_at P (filePath opts urlPath)) urlPath urlQuery
      = (Some pathname, redirect) \<and>
    \<not> truthy (parsePathname P (pathname_with_query opts urlQuery pathname) (host opts) (port opts))
    \<longrightarrow> listener P opts trailingSlash (Some url) events =
          Inr (Lstat (filePath opts urlPath) # redirect @ [WriteHead 400, End ''Bad request.'']))
   \<and> (URL_pathname P input (''http://'' @ template h @ '':'' @ string_of_nat n) = Some u \<and>
       (\<forall>c \<in> set u. (of_char c :: nat) < 128)
    \<longrightarrow> parsePathname P input h n = Some u)"
  by (auto simp add: listener_def Let_def truthy_def parsePathname_def decodeURI_encodeURI_ascii
      split: option.splits)

theorem bad_request_after_lstat_witness:
  "listener (example_platform [''/srv/client/'']) example_options (Some ''always'')
     (Some ''//?x=1'') [] =
     Inr [Lstat ''/srv/client/'', WriteHead 400, End ''Bad request.'']
   \<and> parsePathname (example_platform [''/srv/client/'']) ''/%E0%A4%A'' (Some ''localhost'') 4321 =
     Some ''/%E0%A4%A''"
proof -
  let ?P = "example_platform [''/srv/client/'']"
  have fp: "filePath example_options ''//'' = ''/srv/client/''" by (simp add: eval_simps)
  have h1: "''//?x=1'' \<noteq> []" by simp
  have h2: "destructure_url ''//?x=1'' = (''//'', Some ''x=1'')" by (simp add: eval_simps)
  have h3: "trailingSlash_switch (Some ''always'') (isDirectory_at ?P (filePath example_options ''//''))
      ''//'' (Some ''x=1'') = (Some ''//'', [])" by (simp add: eval_simps)
  have h4: "\<not> truthy (parsePathname ?P (pathname_with_query example_options (Some ''x=1'') ''//'')
      (host example_options) (port example_options))" by (simp add: eval_simps)
  have h5: "URL_pathname ?P ''/%E0%A4%A''
      (''http://'' @ template (Some ''localhost'') @ '':'' @ string_of_nat 4321) = Some ''/%E0%A4%A''"
    by simp
  have h6: "\<forall>c \<in> set ''/%E0%A4%A''. (of_char c :: nat) < 128" by simp
  from bad_request_after_lstat [of "''//?x=1''" "''//''" "Some ''x=1''" "Some ''always''" ?P
      example_options "''//''" "[]" "[]" "''/%E0%A4%A''" "Some ''localhost''" 4321 "''/%E0%A4%A''"]
    h1 h2 h3 h4 h5 h6 fp
  show ?thesis by simp
qed

text \<open>
  C2. The claim does not hold of the listener at these two requests. Under \<open>always\<close>, for
  \<open>/about\<close> with no file on disk, the listener sets status 301 and the Location
  \<open>/about/\<close>, then still creates the stream, and on its error calls the handler: a
  redirect and a delegation for one request. Under \<open>never\<close>, for the directory
  \<open>/docs/\<close> whose index file the stream finds and writes (the events \<open>file\<close>,
  \<open>headers\<close>, \<open>stream\<close>, \<open>end\<close>), the listener sets status 301 and the Location and
  pipes the stream into the same response without ending it.
\<close>

theorem redirect_and_second_action:
  "listener (example_platform []) example_options (Some ''always'') (Some ''/about'')
       [EvError ''NotFoundError: Not Found''] =
     Inr [Lstat ''/srv/client/about'', SetStatusCode 301, SetHeader ''Location'' ''/about/'',
          Send ''/about/'' ''/srv/client/'' Deny, Pipe, Handler]
   \<and> listener (example_platform [''/srv/client/docs/'']) example_options (Some ''never'')
       (Some ''/docs/?x=1'') [EvFile, EvHeaders, EvStream, EvEnd] =
     Inr [Lstat ''/srv/client/docs/'', SetStatusCode 301, SetHeader ''Location'' ''/docs?x=1'',
          Send ''/docs/'' ''/srv/client/'' Deny, Pipe]"
  by (simp add: eval_simps)

text \<open>
  C7. The claim does not hold of the listener at this request. Under \<open>never\<close>, for the
  directory \<open>/docs/\<close> in which the stream finds no file, the handler is called after the
  listener has set status 301 and a Location header on the response it passes on.
\<close>

theorem handler_after_redirect:
  "listener (example_platform [''/srv/client/docs/'']) example_options (Some ''never'')
       (Some ''/docs/'') [EvError ''NotFoundError: Not Found''] =
     Inr [Lstat ''/srv/client/docs/'', SetStatusCode 301, SetHeader ''Location'' ''/docs'',
          Send ''/docs/'' ''/srv/client/'' Deny, Pipe, Handler]"
  by (simp add: eval_simps)

text \<open>
  C8. The claim does not hold of the listener at this request. For the target
  \<open>/../../etc/passwd\<close> the candidate path is \<open>/etc/passwd\<close>, outside the client root
  \<open>/srv/client/\<close>, and this is the path given to \<open>lstatSync\<close>.
\<close>

theorem lstat_outside_client_root:
  "filePath example_options ''/../../etc/passwd'' = ''/etc/passwd''
   \<and> \<not> prefix ''/srv/client/'' ''/etc/passwd''
   \<and> listener
       \<lparr>URL_pathname = (\<lambda>input base.
          if input = ''/../../etc/passwd'' then Some ''/etc/passwd'' else None),
        lstat_isDirectory = (\<lambda>path. if path = ''/etc/passwd'' then Some False else None)\<rparr>
       example_options (Some ''ignore'') (Some ''/../../etc/passwd'')
       [EvError ''NotFoundError: Not Found''] =
     Inr [Lstat ''/etc/passwd'', Send ''/etc/passwd'' ''/srv/client/'' Deny, Pipe, Handler]"
  by (simp add: eval_simps)

end
